theory Spec2Isabelle
  imports Complex_Main
begin

text \<open>
  A shallow embedding of the two components of the document-to-quiz application: the
  extractor (\<open>extractTextFromFile\<close> with its PDF, DOCX and TXT readers, in the three
  versions the repository holds) and the quiz requester (\<open>generateQuiz\<close>). A function that
  can throw returns a sum, \<open>Inl\<close> the error; what the libraries and the platform do (opening
  a document, \<open>fetch\<close>, \<open>JSON.parse\<close>) is a parameter of the functions that call them.
\<close>

section \<open>JavaScript strings\<close>

text \<open>
  A JavaScript string is a sequence of UTF-16 code units. The model keeps the code units
  U+0000 to U+00FF: a \<^typ>\<open>char\<close> is one code unit, \<^typ>\<open>string\<close> is a string over them.
  \<open>String.prototype.trim\<close> removes white space and line terminators from both ends; in this
  range these are TAB, LF, VT, FF, CR, SPACE and NO-BREAK SPACE.
\<close>

definition is_space :: "char \<Rightarrow> bool" where
  "is_space c = (let n = (of_char c :: nat) in (9 \<le> n \<and> n \<le> 13) \<or> n = 32 \<or> n = 160)"

definition trim :: "string \<Rightarrow> string" where
  "trim s = rev (dropWhile is_space (rev (dropWhile is_space s)))"

text \<open>
  \<open>toLowerCase\<close> on this range: the ASCII capitals and the Latin-1 capitals (U+00C0 to U+00DE
  without the multiplication sign U+00D7) move up by 32.
\<close>

definition lower_char :: "char \<Rightarrow> char" where
  "lower_char c =
     (let n = (of_char c :: nat)
      in if (65 \<le> n \<and> n \<le> 90) \<or> (192 \<le> n \<and> n \<le> 222 \<and> n \<noteq> 215)
         then char_of (n + 32) else c)"

definition toLowerCase :: "string \<Rightarrow> string" where
  "toLowerCase s = map lower_char s"

definition endsWith :: "string \<Rightarrow> string \<Rightarrow> bool" where
  "endsWith s suf = (length suf \<le> length s \<and> drop (length s - length suf) s = suf)"

text \<open>\<open>Array.prototype.join\<close> on an array of strings.\<close>

fun join :: "string \<Rightarrow> string list \<Rightarrow> string" where
  "join sep [] = []"
| "join sep [x] = x"
| "join sep (x # y # xs) = x @ sep @ join sep (y # xs)"

definition newline :: string where
  "newline = [CHR 0x0A]"

text \<open>
  The decimal rendering of a non-negative integer, as a template literal produces it for a
  count below \<open>10^21\<close> (from there on JavaScript writes a number in exponent form, which is
  not modelled; the counts rendered are numbers of questions and of pages).
\<close>

function show_nat :: "nat \<Rightarrow> string" where
  "show_nat n =
     (if n < 10 then [char_of (48 + n)]
      else show_nat (n div 10) @ [char_of (48 + n mod 10)])"
  by pat_completeness auto
termination
  by (relation "measure id") auto

declare show_nat.simps [simp del]

section \<open>Errors\<close>

text \<open>
  Every \<open>throw\<close> of the sources is a constructor; the message of the thrown \<open>Error\<close> is given
  beside it. \<open>LibraryError\<close> stands for a rejection raised inside a library or the platform
  (pdf.js, pdf-lib, mammoth), \<open>TypeError\<close> and \<open>SyntaxError\<close> for the two built-in errors
  the code can raise itself.
\<close>

datatype error =
    UnsupportedFileType string  \<comment> \<open>\<open>Unsupported file type: ${fileType}\<close>\<close>
  | ExtractFailed  \<comment> \<open>\<open>Failed to extract text from file. Please check the file format and try again.\<close>\<close>
  | PdfFailed  \<comment> \<open>\<open>Failed to process PDF file. ...\<close>\<close>
  | DocxFailed  \<comment> \<open>\<open>Failed to process DOCX file. Please check the file format.\<close>\<close>
  | TxtReadFailed  \<comment> \<open>\<open>Failed to read text file\<close>\<close>
  | LibraryError
  | NoTextExtracted  \<comment> \<open>\<open>No text could be extracted from the file\<close>\<close>
  | ApiError nat string  \<comment> \<open>\<open>API Error: ${response.status} ${response.statusText}\<close>\<close>
  | NoResponse  \<comment> \<open>\<open>No response from AI\<close>\<close>
  | InvalidResponseFormat  \<comment> \<open>\<open>Invalid response format from AI\<close>\<close>
  | NoValidQuestions  \<comment> \<open>\<open>No valid questions generated\<close>\<close>
  | InvalidQuestionFormat  \<comment> \<open>\<open>Generated questions have invalid format\<close>\<close>
  | SyntaxError
  | TypeError

section \<open>Files and the libraries that read them\<close>

type_synonym bytes = "nat list"

record upload =
  ftype :: string  \<comment> \<open>\<open>file.type\<close>, the declared MIME type\<close>
  fname :: string  \<comment> \<open>\<open>file.name\<close>\<close>
  content :: bytes

text \<open>
  A document opened by pdf.js: \<open>numPages\<close> is the number of entries of \<open>page_items\<close>, and
  entry \<open>i - 1\<close> is what \<open>getPage(i)\<close> followed by \<open>getTextContent()\<close> gives: the \<open>str\<close> of
  every item, or \<open>None\<close> when one of the two calls rejects.
\<close>

record pdfjs_document =
  page_items :: "string list option list"

definition numPages :: "pdfjs_document \<Rightarrow> nat" where
  "numPages pdf = length (page_items pdf)"

definition getPageItems :: "pdfjs_document \<Rightarrow> nat \<Rightarrow> string list option" where
  "getPageItems pdf i =
     (if 1 \<le> i \<and> i \<le> numPages pdf then page_items pdf ! (i - 1) else None)"

text \<open>
  A document opened by pdf-lib. \<open>getText()\<close> of a text field returns the text entered in the
  field, \<open>undefined\<close> for a field without text, or throws (a rich text field).
  A page size is kept as the decimal rendering of its two numbers.
\<close>

datatype getText_result = TextValue string | Undefined | Throws

datatype pdf_field = PDFTextField getText_result | OtherField

record pdflib_document =
  form_fields :: "pdf_field list"
  page_sizes :: "(string \<times> string) list"

definition getPageCount :: "pdflib_document \<Rightarrow> nat" where
  "getPageCount doc = length (page_sizes doc)"

record libs =
  pdfjs_getDocument :: "bytes \<Rightarrow> pdfjs_document option"
  pdflib_load :: "bytes \<Rightarrow> pdflib_document option"
  mammoth_extractRawText :: "bytes \<Rightarrow> string option"
  readAsText :: "bytes \<Rightarrow> string option"

section \<open>The extractor\<close>

subsection \<open>PDF through pdf.js\<close>

text \<open>The loop \<open>for (let i = 1; i <= pdf.numPages; i++)\<close> with its accumulator \<open>fullText\<close>.\<close>

function pdfjs_loop :: "pdfjs_document \<Rightarrow> nat \<Rightarrow> string \<Rightarrow> error + string" where
  "pdfjs_loop pdf i fullText =
     (if i \<le> numPages pdf then
        (case getPageItems pdf i of
           None \<Rightarrow> Inl LibraryError
         | Some items \<Rightarrow> pdfjs_loop pdf (i + 1) (fullText @ join '' '' items @ newline))
      else Inr fullText)"
  by pat_completeness auto
termination
  by (relation "measure (\<lambda>(pdf, i, fullText). numPages pdf + 1 - i)") auto

declare pdfjs_loop.simps [simp del]

text \<open>The variant without a handler of its own: a rejection propagates as it is.\<close>

definition extractTextFromPDF_pdfjs :: "libs \<Rightarrow> upload \<Rightarrow> error + string" where
  "extractTextFromPDF_pdfjs l f =
     (case pdfjs_getDocument l (content f) of
        None \<Rightarrow> Inl LibraryError
      | Some pdf \<Rightarrow>
          (case pdfjs_loop pdf 1 [] of
             Inl e \<Rightarrow> Inl e
           | Inr fullText \<Rightarrow> Inr (trim fullText)))"

text \<open>The variant whose body stands in \<open>try\<close>: every failure becomes \<open>PdfFailed\<close>.\<close>

definition extractTextFromPDF_pdfjs_guarded :: "libs \<Rightarrow> upload \<Rightarrow> error + string" where
  "extractTextFromPDF_pdfjs_guarded l f =
     (case extractTextFromPDF_pdfjs l f of
        Inl e \<Rightarrow> Inl PdfFailed
      | Inr t \<Rightarrow> Inr t)"

subsection \<open>PDF through pdf-lib\<close>

text \<open>
  \<open>fields.forEach\<close>: a text field appends \<open>textField.getText() + ' '\<close>, and the string
  concatenation renders \<open>undefined\<close> as the nine letters.
\<close>

fun collectFieldText :: "pdf_field list \<Rightarrow> string \<Rightarrow> error + string" where
  "collectFieldText [] extractedText = Inr extractedText"
| "collectFieldText (PDFTextField (TextValue s) # fs) extractedText =
     collectFieldText fs (extractedText @ s @ '' '')"
| "collectFieldText (PDFTextField Undefined # fs) extractedText =
     collectFieldText fs (extractedText @ ''undefined'' @ '' '')"
| "collectFieldText (PDFTextField Throws # fs) extractedText = Inl LibraryError"
| "collectFieldText (OtherField # fs) extractedText = collectFieldText fs extractedText"

text \<open>The loop \<open>for (let i = 0; i < Math.min(pageCount, 5); i++)\<close>.\<close>

function page_info_loop :: "pdflib_document \<Rightarrow> nat \<Rightarrow> string \<Rightarrow> string" where
  "page_info_loop doc i extractedText =
     (if i < min (getPageCount doc) 5 then
        (case page_sizes doc ! i of
           (width, height) \<Rightarrow>
             page_info_loop doc (i + 1)
               (extractedText @ ''Page '' @ show_nat (i + 1) @ '' content ('' @ width @ ''x''
                  @ height @ ''). ''))
      else extractedText)"
  by pat_completeness auto
termination
  by (relation "measure (\<lambda>(doc, i, extractedText). min (getPageCount doc) 5 - i)") auto

declare page_info_loop.simps [simp del]

definition basic_info :: "pdflib_document \<Rightarrow> string" where
  "basic_info doc =
     page_info_loop doc 0 (''PDF document with '' @ show_nat (getPageCount doc) @ '' pages. '')"

definition no_readable_text :: string where
  "no_readable_text = ''PDF content extracted successfully but no readable text found.''"

definition extractTextFromPDF_pdflib :: "libs \<Rightarrow> upload \<Rightarrow> error + string" where
  "extractTextFromPDF_pdflib l f =
     (case pdflib_load l (content f) of
        None \<Rightarrow> Inl PdfFailed
      | Some doc \<Rightarrow>
          (case collectFieldText (form_fields doc) [] of
             Inl e \<Rightarrow> Inl PdfFailed
           | Inr fieldText \<Rightarrow>
               (let extractedText = (if trim fieldText = [] then basic_info doc else fieldText)
                in Inr (if trim extractedText = [] then no_readable_text
                        else trim extractedText))))"

subsection \<open>DOCX and TXT\<close>

definition extractTextFromDOCX :: "libs \<Rightarrow> upload \<Rightarrow> error + string" where
  "extractTextFromDOCX l f =
     (case mammoth_extractRawText l (content f) of
        None \<Rightarrow> Inl LibraryError
      | Some v \<Rightarrow> Inr (trim v))"

definition extractTextFromDOCX_guarded :: "libs \<Rightarrow> upload \<Rightarrow> error + string" where
  "extractTextFromDOCX_guarded l f =
     (case extractTextFromDOCX l f of
        Inl e \<Rightarrow> Inl DocxFailed
      | Inr t \<Rightarrow> Inr t)"

definition extractTextFromTXT :: "libs \<Rightarrow> upload \<Rightarrow> error + string" where
  "extractTextFromTXT l f =
     (case readAsText l (content f) of
        None \<Rightarrow> Inl TxtReadFailed
      | Some t \<Rightarrow> Inr (trim t))"

subsection \<open>Dispatch\<close>

text \<open>
  The repository holds three versions of the extractor module. Their dispatch is the same
  text; they differ in the readers: pdf.js without handlers, pdf.js with a handler around
  the PDF reader, and pdf-lib with handlers around the PDF and the DOCX reader.
\<close>

datatype variant = PdfJs | PdfJsGuarded | PdfLib

datatype reader = PDF | DOCX | TXT

definition selectReader :: "upload \<Rightarrow> reader option" where
  "selectReader f =
     (let fileType = ftype f; fileName = toLowerCase (fname f)
      in if fileType = ''application/pdf'' \<or> endsWith fileName ''.pdf'' then Some PDF
         else if fileType = ''application/vnd.openxmlformats-officedocument.wordprocessingml.document''
                 \<or> endsWith fileName ''.docx'' then Some DOCX
         else if fileType = ''text/plain'' \<or> endsWith fileName ''.txt'' then Some TXT
         else None)"

fun runReader :: "variant \<Rightarrow> reader \<Rightarrow> libs \<Rightarrow> upload \<Rightarrow> error + string" where
  "runReader PdfJs PDF = extractTextFromPDF_pdfjs"
| "runReader PdfJsGuarded PDF = extractTextFromPDF_pdfjs_guarded"
| "runReader PdfLib PDF = extractTextFromPDF_pdflib"
| "runReader PdfLib DOCX = extractTextFromDOCX_guarded"
| "runReader v DOCX = extractTextFromDOCX"
| "runReader v TXT = extractTextFromTXT"

text \<open>
  The whole dispatch stands in \<open>try\<close>, and the handler throws one fixed error for whatever
  was caught, the \<open>Unsupported file type\<close> error of the last branch included.
\<close>

definition catchAll :: "error + string \<Rightarrow> error + string" where
  "catchAll r = (case r of Inl e \<Rightarrow> Inl ExtractFailed | Inr t \<Rightarrow> Inr t)"

definition extractTextFromFile :: "variant \<Rightarrow> libs \<Rightarrow> upload \<Rightarrow> error + string" where
  "extractTextFromFile v l f =
     catchAll (case selectReader f of
                 Some r \<Rightarrow> runReader v r l f
               | None \<Rightarrow> Inl (UnsupportedFileType (ftype f)))"

section \<open>JSON values as JavaScript sees them\<close>

text \<open>
  What \<open>JSON.parse\<close> and \<open>response.json()\<close> produce. A number is kept as the exact
  rational its literal denotes (JavaScript rounds it to a double; the small integers of
  the examples are exact in both). An object is its list of members in source order; a
  lookup takes the last member of a name, as a repeated name overwrites the earlier one.
\<close>

datatype json = JNull | JBool bool | JNum rat | JStr string | JArr "json list"
  | JObj "(string \<times> json) list"

text \<open>
  A JavaScript value read out of parsed JSON is \<open>Some\<close> JSON value or \<open>None\<close> for
  \<open>undefined\<close>. \<open>truthy\<close> is the conversion to boolean that \<open>!\<close>, \<open>&&\<close> and \<open>every\<close> apply.
\<close>

fun truthy :: "json option \<Rightarrow> bool" where
  "truthy None = False"
| "truthy (Some JNull) = False"
| "truthy (Some (JBool b)) = b"
| "truthy (Some (JNum n)) = (n \<noteq> 0)"
| "truthy (Some (JStr s)) = (s \<noteq> [])"
| "truthy (Some (JArr xs)) = True"
| "truthy (Some (JObj kvs)) = True"

text \<open>
  \<open>named v k\<close> is the property read \<open>v.k\<close> on a value that is not \<open>null\<close>, for the names the
  code reads (\<open>candidates\<close>, \<open>content\<close>, \<open>parts\<close>, \<open>text\<close>, \<open>question\<close>, \<open>options\<close>,
  \<open>correctAnswerIndex\<close>, \<open>hint\<close>): only an object can have them, since no prototype of a
  string, number, boolean or array defines one of them. \<open>first_elem v\<close> is \<open>v[0]\<close>.
  \<open>opt_chain\<close> is one link \<open>?.\<close> of an optional chain: \<open>undefined\<close> on \<open>undefined\<close> and
  \<open>null\<close>, the access otherwise.
\<close>

fun named :: "json \<Rightarrow> string \<Rightarrow> json option" where
  "named (JObj kvs) k = map_of (rev kvs) k"
| "named v k = None"

fun first_elem :: "json \<Rightarrow> json option" where
  "first_elem (JArr xs) = (case xs of [] \<Rightarrow> None | x # rest \<Rightarrow> Some x)"
| "first_elem (JObj kvs) = map_of (rev kvs) ''0''"
| "first_elem (JStr s) = (case s of [] \<Rightarrow> None | c # rest \<Rightarrow> Some (JStr [c]))"
| "first_elem v = None"

fun opt_chain :: "json option \<Rightarrow> (json \<Rightarrow> json option) \<Rightarrow> json option" where
  "opt_chain None g = None"
| "opt_chain (Some JNull) g = None"
| "opt_chain (Some v) g = g v"

section \<open>A reference model of the platform's JSON parser\<close>

text \<open>
  \<open>JSON.parse\<close> is part of the platform, not of the repository: the quiz requester takes the
  parser as a parameter. This parser follows the JSON grammar (ECMA-404) and serves where a
  concrete reply has to be parsed. The recursion over nested values runs on fuel; twice the
  length of the input plus two is handed in, and a parse that ran out of it would be
  \<open>None\<close>. It is not the platform's parser on every input: a Unicode escape of a code unit
  above U+00FF, which the strings of the model cannot hold, is \<open>None\<close> here, and a number
  stays the exact rational where \<open>JSON.parse\<close> rounds to a double. No theorem about all
  platforms assumes that the platform's parser is this one.
\<close>

definition json_ws :: "char \<Rightarrow> bool" where
  "json_ws c = (c = CHR '' '' \<or> c = CHR 0x09 \<or> c = CHR 0x0A \<or> c = CHR 0x0D)"

definition skip_ws :: "string \<Rightarrow> string" where
  "skip_ws s = dropWhile json_ws s"

definition is_digit :: "char \<Rightarrow> bool" where
  "is_digit c = (let n = (of_char c :: nat) in 48 \<le> n \<and> n \<le> 57)"

definition digits_val :: "string \<Rightarrow> nat" where
  "digits_val ds = foldl (\<lambda>a c. 10 * a + (of_char c - 48)) 0 ds"

definition hex_val :: "char \<Rightarrow> nat option" where
  "hex_val c =
     (let n = (of_char c :: nat)
      in if 48 \<le> n \<and> n \<le> 57 then Some (n - 48)
         else if 65 \<le> n \<and> n \<le> 70 then Some (n - 55)
         else if 97 \<le> n \<and> n \<le> 102 then Some (n - 87)
         else None)"

definition hex4 :: "char \<Rightarrow> char \<Rightarrow> char \<Rightarrow> char \<Rightarrow> nat option" where
  "hex4 a b c d =
     (case (hex_val a, hex_val b, hex_val c, hex_val d) of
        (Some w, Some x, Some y, Some z) \<Rightarrow> Some (((w * 16 + x) * 16 + y) * 16 + z)
      | _ \<Rightarrow> None)"

definition unescape :: "char \<Rightarrow> char option" where
  "unescape e =
     (if e = CHR 0x22 \<or> e = CHR 0x5C \<or> e = CHR ''/'' then Some e
      else if e = CHR ''b'' then Some (CHR 0x08)
      else if e = CHR ''f'' then Some (CHR 0x0C)
      else if e = CHR ''n'' then Some (CHR 0x0A)
      else if e = CHR ''r'' then Some (CHR 0x0D)
      else if e = CHR ''t'' then Some (CHR 0x09)
      else None)"

fun parse_chars :: "string \<Rightarrow> string \<Rightarrow> (string \<times> string) option" where
  "parse_chars [] acc = None"
| "parse_chars (c # cs) acc =
     (if c = CHR 0x22 then Some (rev acc, cs)
      else if c = CHR 0x5C then
        (case cs of
           [] \<Rightarrow> None
         | e # r \<Rightarrow>
             if e = CHR ''u'' then
               (case r of
                  h1 # h2 # h3 # h4 # r' \<Rightarrow>
                    (case hex4 h1 h2 h3 h4 of
                       None \<Rightarrow> None
                     | Some n \<Rightarrow> if n < 256 then parse_chars r' (char_of n # acc) else None)
                | _ \<Rightarrow> None)
             else
               (case unescape e of
                  None \<Rightarrow> None
                | Some u \<Rightarrow> parse_chars r (u # acc)))
      else if (of_char c :: nat) < 32 then None
      else parse_chars cs (c # acc))"

definition parse_exponent :: "string \<Rightarrow> ((bool \<times> string) \<times> string) option" where
  "parse_exponent s =
     (case s of
        [] \<Rightarrow> Some ((False, ''0''), s)
      | e # r \<Rightarrow>
          if e = CHR ''e'' \<or> e = CHR ''E'' then
            (let (neg, r1) =
               (case r of
                  [] \<Rightarrow> (False, r)
                | sg # r' \<Rightarrow>
                    if sg = CHR ''-'' then (True, r')
                    else if sg = CHR ''+'' then (False, r') else (False, r))
             in if takeWhile is_digit r1 = [] then None
                else Some ((neg, takeWhile is_digit r1), dropWhile is_digit r1))
          else Some ((False, ''0''), s))"

definition parse_fraction :: "string \<Rightarrow> (string \<times> string) option" where
  "parse_fraction s =
     (case s of
        [] \<Rightarrow> Some ([], s)
      | d # r \<Rightarrow>
          if d = CHR ''.'' then
            (if takeWhile is_digit r = [] then None
             else Some (takeWhile is_digit r, dropWhile is_digit r))
          else Some ([], s))"

definition parse_number :: "string \<Rightarrow> (json \<times> string) option" where
  "parse_number s =
     (let (neg, s1) = (case s of [] \<Rightarrow> (False, s) | c # r \<Rightarrow> if c = CHR ''-'' then (True, r) else (False, s));
          ip = takeWhile is_digit s1
      in if ip = [] then None
         else if 1 < length ip \<and> hd ip = CHR ''0'' then None
         else
           (case parse_fraction (dropWhile is_digit s1) of
              None \<Rightarrow> None
            | Some (fp, s2) \<Rightarrow>
                (case parse_exponent s2 of
                   None \<Rightarrow> None
                 | Some ((eneg, ep), s3) \<Rightarrow>
                     (let m = (of_nat (digits_val ip) + of_nat (digits_val fp) / 10 ^ length fp :: rat);
                          sc = (if eneg then m / 10 ^ digits_val ep else m * 10 ^ digits_val ep)
                      in Some (JNum (if neg then - sc else sc), s3)))))"

fun parse_value :: "nat \<Rightarrow> string \<Rightarrow> (json \<times> string) option"
  and parse_elements :: "nat \<Rightarrow> string \<Rightarrow> json list \<Rightarrow> (json list \<times> string) option"
  and parse_members ::
    "nat \<Rightarrow> string \<Rightarrow> (string \<times> json) list \<Rightarrow> ((string \<times> json) list \<times> string) option"
where
  "parse_value 0 s = None"
| "parse_value (Suc n) s =
     (case skip_ws s of
        [] \<Rightarrow> None
      | c # r \<Rightarrow>
          if c = CHR ''['' then
            (case skip_ws r of
               [] \<Rightarrow> None
             | d # r' \<Rightarrow>
                 if d = CHR '']'' then Some (JArr [], r')
                 else (case parse_elements n r [] of
                         None \<Rightarrow> None
                       | Some (vs, r'') \<Rightarrow> Some (JArr vs, r'')))
          else if c = CHR ''{'' then
            (case skip_ws r of
               [] \<Rightarrow> None
             | d # r' \<Rightarrow>
                 if d = CHR ''}'' then Some (JObj [], r')
                 else (case parse_members n r [] of
                         None \<Rightarrow> None
                       | Some (kvs, r'') \<Rightarrow> Some (JObj kvs, r'')))
          else if c = CHR 0x22 then
            (case parse_chars r [] of
               None \<Rightarrow> None
             | Some (str, r') \<Rightarrow> Some (JStr str, r'))
          else if take 4 (c # r) = ''true'' then Some (JBool True, drop 4 (c # r))
          else if take 5 (c # r) = ''false'' then Some (JBool False, drop 5 (c # r))
          else if take 4 (c # r) = ''null'' then Some (JNull, drop 4 (c # r))
          else parse_number (c # r))"
| "parse_elements 0 s acc = None"
| "parse_elements (Suc n) s acc =
     (case parse_value n s of
        None \<Rightarrow> None
      | Some (v, r) \<Rightarrow>
          (case skip_ws r of
             [] \<Rightarrow> None
           | d # r' \<Rightarrow>
               if d = CHR '','' then parse_elements n r' (acc @ [v])
               else if d = CHR '']'' then Some (acc @ [v], r')
               else None))"
| "parse_members 0 s acc = None"
| "parse_members (Suc n) s acc =
     (case skip_ws s of
        [] \<Rightarrow> None
      | q # r \<Rightarrow>
          if q = CHR 0x22 then
            (case parse_chars r [] of
               None \<Rightarrow> None
             | Some (k, r1) \<Rightarrow>
                 (case skip_ws r1 of
                    [] \<Rightarrow> None
                  | colon # r2 \<Rightarrow>
                      if colon = CHR '':'' then
                        (case parse_value n r2 of
                           None \<Rightarrow> None
                         | Some (v, r3) \<Rightarrow>
                             (case skip_ws r3 of
                                [] \<Rightarrow> None
                              | d # r4 \<Rightarrow>
                                  if d = CHR '','' then parse_members n r4 (acc @ [(k, v)])
                                  else if d = CHR ''}'' then Some (acc @ [(k, v)], r4)
                                  else None))
                      else None))
          else None)"

definition JSON_parse :: "string \<Rightarrow> json option" where
  "JSON_parse s =
     (case parse_value (2 * length s + 2) s of
        None \<Rightarrow> None
      | Some (v, r) \<Rightarrow> if skip_ws r = [] then Some v else None)"

section \<open>The quiz requester\<close>

text \<open>
  Modelled from the spec: the declaration of \<open>QuizSettingsData\<close> (module \<open>./QuizSettings\<close>) is
  not among the sources. The specification gives it as the record of a positive question
  count, a difficulty out of easy, medium and hard, and the one question type mcq.
\<close>

datatype difficulty_level = Easy | Medium | Hard

datatype question_kind = Mcq

record quiz_settings =
  questionCount :: nat
  difficulty :: difficulty_level
  questionType :: question_kind

fun difficulty_name :: "difficulty_level \<Rightarrow> string" where
  "difficulty_name Easy = ''easy''"
| "difficulty_name Medium = ''medium''"
| "difficulty_name Hard = ''hard''"

fun questionType_name :: "question_kind \<Rightarrow> string" where
  "questionType_name Mcq = ''mcq''"

text \<open>
  \<open>toUpperCase\<close>, applied to the name of the question type only: the ASCII letters.
\<close>

definition upper_char :: "char \<Rightarrow> char" where
  "upper_char c =
     (let n = (of_char c :: nat) in if 97 \<le> n \<and> n \<le> 122 then char_of (n - 32) else c)"

definition toUpperCase :: "string \<Rightarrow> string" where
  "toUpperCase s = map upper_char s"

text \<open>
  The request handed to \<open>fetch\<close>; its body is kept as the JSON value that
  \<open>JSON.stringify\<close> serialises. Of the response the code reads \<open>ok\<close> (a status from 200
  to 299), \<open>status\<close>, \<open>statusText\<close> and the outcome of \<open>response.json()\<close>, which is \<open>None\<close>
  when the body is not JSON. \<open>fetch\<close> itself answers \<open>None\<close> when it rejects.
\<close>

record request =
  url :: string
  http_method :: string
  headers :: "(string \<times> string) list"
  body :: json

record response =
  status :: nat
  statusText :: string
  json_result :: "json option"

definition ok :: "response \<Rightarrow> bool" where
  "ok r = (200 \<le> status r \<and> status r \<le> 299)"

record platform =
  fetch :: "request \<Rightarrow> response option"
  JSON_parse_of :: "string \<Rightarrow> json option"

definition isReadyToGenerate :: "upload option \<Rightarrow> string \<Rightarrow> quiz_settings \<Rightarrow> bool" where
  "isReadyToGenerate selectedFile apiKey settings =
     (selectedFile \<noteq> None \<and> trim apiKey \<noteq> [] \<and> questionCount settings \<noteq> 0
      \<and> difficulty_name (difficulty settings) \<noteq> [] \<and> questionType_name (questionType settings) \<noteq> [])"

text \<open>
  The template literal of the prompt: every line of it, the first empty one included, ends
  in a newline.
\<close>

definition systemPrompt :: "quiz_settings \<Rightarrow> string \<Rightarrow> string" where
  \<open>systemPrompt settings extractedText =
     concat (map (\<lambda>line. line @ newline)
       ['''',
        ''You are an AI quiz generator.'',
        '''',
        ''Given the following educational document content and settings:'',
        ''- Number of Questions: '' @ show_nat (questionCount settings),
        ''- Difficulty: '' @ difficulty_name (difficulty settings),
        ''- Question Type: '' @ toUpperCase (questionType_name (questionType settings)),
        '''',
        ''Generate high-quality MCQ questions ONLY based on the document content.'',
        '''',
        ''Return an array of questions in the following JSON format:'',
        ''['',
        ''  {'',
        ''    "question": "What is ...?",'',
        ''    "options": ["A", "B", "C", "D"],'',
        ''    "correctAnswerIndex": 2,'',
        ''    "hint": "It's the component responsible for ..."'',
        ''  }'',
        '']'',
        '''',
        ''Important: '',
        ''- Return ONLY valid JSON array, no extra text'',
        ''- Make sure questions are directly related to the document content'',
        ''- Provide clear, unambiguous options'',
        ''- Hints should be helpful but not give away the answer'',
        '''',
        ''Document Content:'',
        extractedText])\<close>

definition buildRequest :: "string \<Rightarrow> quiz_settings \<Rightarrow> string \<Rightarrow> request" where
  "buildRequest apiKey settings extractedText =
     \<lparr>url = ''https://generativelanguage.googleapis.com/v1beta/models/gemini-1.5-flash-latest:generateContent?key='' @ apiKey,
      http_method = ''POST'',
      headers = [(''Content-Type'', ''application/json'')],
      body = JObj [(''contents'',
               JArr [JObj [(''parts'', JArr [JObj [(''text'', JStr (systemPrompt settings extractedText))]])]])]\<rparr>"

text \<open>
  \<open>data.candidates?.[0]?.content?.parts?.[0]?.text\<close>. Only the first read has no \<open>?.\<close>: it
  throws a \<open>TypeError\<close> on \<open>null\<close>.
\<close>

definition generatedTextOf :: "json \<Rightarrow> error + json option" where
  "generatedTextOf data =
     (case data of
        JNull \<Rightarrow> Inl TypeError
      | _ \<Rightarrow>
          Inr (opt_chain (opt_chain (opt_chain (opt_chain (opt_chain
                 (named data ''candidates'') first_elem)
                 (\<lambda>v. named v ''content''))
                 (\<lambda>v. named v ''parts''))
                 first_elem)
                 (\<lambda>v. named v ''text'')))"

text \<open>
  \<open>generatedText.match\<close> with the pattern of an opening bracket, any characters (line
  breaks included) and a closing bracket: the match starts at the first opening bracket
  and, the star being greedy, ends at the last closing bracket behind it.
\<close>

definition matchArray :: "string \<Rightarrow> string option" where
  "matchArray s =
     (case dropWhile (\<lambda>c. c \<noteq> CHR ''['') s of
        [] \<Rightarrow> None
      | b # rest \<Rightarrow>
          (case rev (dropWhile (\<lambda>c. c \<noteq> CHR '']'') (rev rest)) of
             [] \<Rightarrow> None
           | m \<Rightarrow> Some (b # m)))"

text \<open>
  The callback of \<open>questions.every\<close>. Reading a property of \<open>null\<close> throws; on every other
  value the reads give \<open>undefined\<close> or the member.
\<close>

definition validQuestion :: "json \<Rightarrow> error + bool" where
  "validQuestion q =
     (case q of
        JNull \<Rightarrow> Inl TypeError
      | _ \<Rightarrow>
          Inr (truthy (named q ''question'')
               \<and> (case named q ''options'' of Some (JArr opts) \<Rightarrow> length opts = 4 | _ \<Rightarrow> False)
               \<and> (case named q ''correctAnswerIndex'' of Some (JNum n) \<Rightarrow> True | _ \<Rightarrow> False)
               \<and> truthy (named q ''hint'')))"

fun every :: "('a \<Rightarrow> error + bool) \<Rightarrow> 'a list \<Rightarrow> error + bool" where
  "every p [] = Inr True"
| "every p (x # xs) =
     (case p x of
        Inl e \<Rightarrow> Inl e
      | Inr b \<Rightarrow> if b then every p xs else Inr False)"

text \<open>
  From the test of \<open>generatedText\<close> to the validated questions. A truthy reply that is not a
  string has no method \<open>match\<close>, and the call throws a \<open>TypeError\<close>.
\<close>

definition parseQuestions :: "(string \<Rightarrow> json option) \<Rightarrow> json option \<Rightarrow> error + json list" where
  "parseQuestions parse generatedText =
     (if truthy generatedText then
        (case generatedText of
           Some (JStr s) \<Rightarrow>
             (case matchArray s of
                None \<Rightarrow> Inl InvalidResponseFormat
              | Some m \<Rightarrow>
                  (case parse m of
                     None \<Rightarrow> Inl SyntaxError
                   | Some (JArr questions) \<Rightarrow>
                       if questions = [] then Inl NoValidQuestions
                       else
                         (case every validQuestion questions of
                            Inl e \<Rightarrow> Inl e
                          | Inr isValidFormat \<Rightarrow>
                              if isValidFormat then Inr questions
                              else Inl InvalidQuestionFormat)
                   | Some other \<Rightarrow> Inl NoValidQuestions))
         | _ \<Rightarrow> Inl TypeError)
      else Inl NoResponse)"

definition handleResponse :: "(string \<Rightarrow> json option) \<Rightarrow> response \<Rightarrow> error + json list" where
  "handleResponse parse r =
     (if ok r then
        (case json_result r of
           None \<Rightarrow> Inl SyntaxError
         | Some data \<Rightarrow>
             (case generatedTextOf data of
                Inl e \<Rightarrow> Inl e
              | Inr generatedText \<Rightarrow> parseQuestions parse generatedText))
      else Inl (ApiError (status r) (statusText r)))"

text \<open>
  \<open>generateQuiz\<close> returns nothing; what it does is kept as a pair. The first component is
  \<open>None\<close> when the function returns at once (not ready), \<open>Some (Inr questions)\<close> when
  \<open>onQuizGenerated\<close> is called with the questions, and \<open>Some (Inl e)\<close> when the handler at
  the end reports the error \<open>e\<close>. The second component lists the requests handed to
  \<open>fetch\<close>. The extractor is a parameter: the module imports it, and the repository has
  three versions of it. The notifications and the busy flag are left out.
\<close>

definition generateQuiz ::
  "platform \<Rightarrow> (upload \<Rightarrow> error + string) \<Rightarrow> upload option \<Rightarrow> string \<Rightarrow> quiz_settings
     \<Rightarrow> (error + json list) option \<times> request list" where
  "generateQuiz pf extractor selectedFile apiKey settings =
     (if isReadyToGenerate selectedFile apiKey settings then
        (case selectedFile of
           None \<Rightarrow> (None, [])
         | Some f \<Rightarrow>
             (case extractor f of
                Inl e \<Rightarrow> (Some (Inl e), [])
              | Inr extractedText \<Rightarrow>
                  if trim extractedText = [] then (Some (Inl NoTextExtracted), [])
                  else
                    (let req = buildRequest apiKey settings extractedText
                     in case fetch pf req of
                          None \<Rightarrow> (Some (Inl LibraryError), [req])
                        | Some r \<Rightarrow> (Some (handleResponse (JSON_parse_of pf) r), [req]))))
      else (None, []))"

section \<open>The specification's wording\<close>

text \<open>
  The PDF path as the specification words it: the text items of a page joined by single
  spaces, the pages in order separated by newlines, the result trimmed.
\<close>

definition pages_text :: "string list list \<Rightarrow> string" where
  "pages_text pages = trim (join newline (map (join '' '') pages))"

text \<open>
  The shape of a question as the data model of the specification words it: \<open>options\<close> is a
  sequence of exactly four strings, \<open>correctAnswerIndex\<close> an integer from 0 to 3.
\<close>

definition four_string_options :: "json \<Rightarrow> bool" where
  "four_string_options q =
     (case named q ''options'' of
        Some (JArr opts) \<Rightarrow>
          length opts = 4 \<and> list_all (\<lambda>x. case x of JStr s \<Rightarrow> True | _ \<Rightarrow> False) opts
      | _ \<Rightarrow> False)"

definition index_in_range :: "json \<Rightarrow> bool" where
  "index_in_range q =
     (case named q ''correctAnswerIndex'' of
        Some (JNum n) \<Rightarrow> n = 0 \<or> n = 1 \<or> n = 2 \<or> n = 3
      | _ \<Rightarrow> False)"

text \<open>
  The two error kinds of the extractor's contract: the error thrown for a file of no
  supported format is of kind \<open>UnsupportedType\<close>, every other one of kind
  \<open>ExtractionFailure\<close>.
\<close>

datatype extraction_error_kind = UnsupportedType | ExtractionFailure

fun extraction_kind :: "error \<Rightarrow> extraction_error_kind" where
  "extraction_kind (UnsupportedFileType t) = UnsupportedType"
| "extraction_kind e = ExtractionFailure"

section \<open>Sample inputs\<close>

definition two_page_pdf :: pdfjs_document where
  "two_page_pdf = \<lparr>page_items = [Some [''Hello'', ''world''], Some [''Second'', ''page'']]\<rparr>"

definition sample_libs :: libs where
  "sample_libs = \<lparr>pdfjs_getDocument = (\<lambda>b. Some two_page_pdf),
                  pdflib_load = (\<lambda>b. None),
                  mammoth_extractRawText = (\<lambda>b. None),
                  readAsText = (\<lambda>b. Some ''  plain text  '')\<rparr>"

definition failing_libs :: libs where
  "failing_libs = \<lparr>pdfjs_getDocument = (\<lambda>b. None), pdflib_load = (\<lambda>b. None),
                   mammoth_extractRawText = (\<lambda>b. None), readAsText = (\<lambda>b. None)\<rparr>"

text \<open>A form with one text field in which nothing was entered, on one Letter page.\<close>

definition blank_form :: pdflib_document where
  "blank_form = \<lparr>form_fields = [PDFTextField Undefined], page_sizes = [(''612'', ''792'')]\<rparr>"

definition form_libs :: libs where
  "form_libs = \<lparr>pdfjs_getDocument = (\<lambda>b. None), pdflib_load = (\<lambda>b. Some blank_form),
                mammoth_extractRawText = (\<lambda>b. None), readAsText = (\<lambda>b. None)\<rparr>"

definition sample_pdf_file :: upload where
  "sample_pdf_file = \<lparr>ftype = ''application/pdf'', fname = ''a.pdf'', content = []\<rparr>"

definition sample_txt_file :: upload where
  "sample_txt_file = \<lparr>ftype = ''text/plain'', fname = ''notes.txt'', content = []\<rparr>"

definition plain_named_pdf :: upload where
  "plain_named_pdf = \<lparr>ftype = ''text/plain'', fname = ''Report.PDF'', content = []\<rparr>"

definition plain_named_docx :: upload where
  "plain_named_docx = \<lparr>ftype = ''text/plain'', fname = ''essay.docx'', content = []\<rparr>"

definition png_file :: upload where
  "png_file = \<lparr>ftype = ''image/png'', fname = ''photo.png'', content = []\<rparr>"

text \<open>
  The same two-page file as pdf-lib sees it: no form field, two Letter pages.
\<close>

definition two_page_plain :: pdflib_document where
  "two_page_plain = \<lparr>form_fields = [], page_sizes = [(''612'', ''792''), (''612'', ''792'')]\<rparr>"

definition both_libs :: libs where
  "both_libs = \<lparr>pdfjs_getDocument = (\<lambda>b. Some two_page_pdf),
                pdflib_load = (\<lambda>b. Some two_page_plain),
                mammoth_extractRawText = (\<lambda>b. None), readAsText = (\<lambda>b. None)\<rparr>"

text \<open>
  Replies of the remote model, and platforms that answer every request with one of them.
\<close>

definition q1_text :: string where
  \<open>q1_text = ''[{"question":"Q1","options":["A","B","C","D"],"correctAnswerIndex":1,"hint":"H1"}]''\<close>

definition q1 :: json where
  "q1 = JObj [(''question'', JStr ''Q1''),
              (''options'', JArr [JStr ''A'', JStr ''B'', JStr ''C'', JStr ''D'']),
              (''correctAnswerIndex'', JNum 1), (''hint'', JStr ''H1'')]"





definition loose_text :: string where
  \<open>loose_text = ''[{"question":"Q1","options":[1,2,3,4],"correctAnswerIndex":1,"hint":"H1"},{"question":"Q2","options":["A","B","C","D"],"correctAnswerIndex":7,"hint":"H2"}]''\<close>

definition loose_options :: json where
  "loose_options = JObj [(''question'', JStr ''Q1''),
              (''options'', JArr [JNum 1, JNum 2, JNum 3, JNum 4]),
              (''correctAnswerIndex'', JNum 1), (''hint'', JStr ''H1'')]"

definition loose_index :: json where
  "loose_index = JObj [(''question'', JStr ''Q2''),
              (''options'', JArr [JStr ''A'', JStr ''B'', JStr ''C'', JStr ''D'']),
              (''correctAnswerIndex'', JNum 7), (''hint'', JStr ''H2'')]"

definition with_null_text :: string where
  \<open>with_null_text = ''[{"question":"Q1","options":["A","B","C","D"],"correctAnswerIndex":1,"hint":"H1"},null]''\<close>

definition short_options_text :: string where
  \<open>short_options_text = ''[{"question":"Q1","options":["A","B","C","D"],"correctAnswerIndex":1,"hint":"H1"},{"question":"Q2","options":["A","B","C"],"correctAnswerIndex":0,"hint":"H2"}]''\<close>

definition q2_short :: json where
  "q2_short = JObj [(''question'', JStr ''Q2''), (''options'', JArr [JStr ''A'', JStr ''B'', JStr ''C'']),
            (''correctAnswerIndex'', JNum 0), (''hint'', JStr ''H2'')]"

definition reply_envelope :: "string \<Rightarrow> json" where
  "reply_envelope reply =
     JObj [(''candidates'',
        JArr [JObj [(''content'', JObj [(''parts'', JArr [JObj [(''text'', JStr reply)]])])]])]"

definition replying :: "string \<Rightarrow> platform" where
  "replying reply =
     \<lparr>fetch = (\<lambda>req. Some \<lparr>status = 200, statusText = ''OK'',
                              json_result = Some (reply_envelope reply)\<rparr>),
      JSON_parse_of = JSON_parse\<rparr>"

definition refusing :: platform where
  "refusing =
     \<lparr>fetch = (\<lambda>req. Some \<lparr>status = 429, statusText = ''Too Many Requests'',
                              json_result = Some (reply_envelope q1_text)\<rparr>),
      JSON_parse_of = JSON_parse\<rparr>"

definition sample_settings :: quiz_settings where
  "sample_settings = \<lparr>questionCount = 10, difficulty = Medium, questionType = Mcq\<rparr>"

section \<open>Properties of the string operations\<close>

lemma dropWhile_all: "\<forall>x\<in>set s. P x \<Longrightarrow> dropWhile P s = []"
  by (simp add: dropWhile_eq_Nil_conv)

lemma trim_empty_iff: "trim s = [] \<longleftrightarrow> (\<forall>c \<in> set s. is_space c)"
proof
  assume "trim s = []"
  then have "dropWhile is_space (rev (dropWhile is_space s)) = []" by (simp add: trim_def)
  then have "\<forall>c\<in>set (dropWhile is_space s). is_space c"
    by (simp add: dropWhile_eq_Nil_conv)
  then have "dropWhile is_space (dropWhile is_space s) = []" by (rule dropWhile_all)
  then have "dropWhile is_space s = []" by (simp del: dropWhile_eq_Nil_conv)
  then show "\<forall>c \<in> set s. is_space c" by (simp add: dropWhile_eq_Nil_conv)
next
  assume "\<forall>c \<in> set s. is_space c"
  then have "dropWhile is_space s = []" by (rule dropWhile_all)
  then show "trim s = []" by (simp add: trim_def del: dropWhile_eq_Nil_conv)
qed

text \<open>What is left after the trailing white space went has no leading white space either.\<close>

lemma dropWhile_rev_dropWhile:
  "dropWhile P (rev (dropWhile P (rev (dropWhile P s)))) = rev (dropWhile P (rev (dropWhile P s)))"
proof (cases "dropWhile P s")
  case Nil
  then show ?thesis by (simp del: dropWhile_eq_Nil_conv)
next
  case (Cons x xs)
  then have nx: "\<not> P x" using hd_dropWhile[of P s] by (metis list.sel(1) list.distinct(1))
  have "dropWhile P (rev (x # xs)) = dropWhile P (rev xs) @ [x]"
    using nx by (simp add: dropWhile_append)
  then show ?thesis using Cons nx by (simp del: dropWhile_eq_Nil_conv)
qed

lemma trim_idem: "trim (trim s) = trim s"
  unfolding trim_def by (simp add: dropWhile_rev_dropWhile)

lemma trim_snoc_space:
  assumes "is_space c"
  shows "trim (s @ [c]) = trim s"
proof (cases "\<forall>x\<in>set s. is_space x")
  case True
  then have "trim s = []" by (simp add: trim_empty_iff)
  moreover have "trim (s @ [c]) = []" using True assms by (simp add: trim_empty_iff)
  ultimately show ?thesis by simp
next
  case False
  then have "dropWhile is_space (s @ [c]) = dropWhile is_space s @ [c]"
    by (auto simp: dropWhile_append)
  then show ?thesis using assms by (simp add: trim_def)
qed

lemma endsWith_last: "endsWith s suf \<Longrightarrow> suf \<noteq> [] \<Longrightarrow> last s = last suf"
  unfolding endsWith_def by (metis drop_eq_Nil last_drop not_le)

lemma docx_not_pdf: "endsWith s ''.docx'' \<Longrightarrow> \<not> endsWith s ''.pdf''"
proof
  assume a: "endsWith s ''.docx''" and b: "endsWith s ''.pdf''"
  have "last s = CHR ''x''" using endsWith_last[OF a] by simp
  moreover have "last s = CHR ''f''" using endsWith_last[OF b] by simp
  ultimately show False by simp
qed

lemma is_space_newline: "is_space (CHR 0x0A)"
  by (simp add: is_space_def)

lemma concat_lines: "ps \<noteq> [] \<Longrightarrow> concat (map (\<lambda>p. p @ newline) ps) = join newline ps @ newline"
  by (induction newline ps rule: join.induct) auto

lemma trim_concat_lines: "trim (concat (map (\<lambda>p. p @ newline) ps)) = trim (join newline ps)"
proof (cases ps)
  case Nil
  then show ?thesis by simp
next
  case (Cons a list)
  then have "concat (map (\<lambda>p. p @ newline) ps) = join newline ps @ [CHR 0x0A]"
    using concat_lines[of ps] by (simp add: newline_def)
  then show ?thesis by (simp add: trim_snoc_space is_space_newline)
qed

lemma trim_concat_joined:
  "trim (concat (map (\<lambda>p. g p @ newline) xs)) = trim (join newline (map g xs))"
  using trim_concat_lines[of "map g xs"] by (simp add: comp_def)

lemma lower_report: "toLowerCase ''Report.PDF'' = ''report.pdf''"
  by code_simp

lemma lower_notes: "toLowerCase ''notes.txt'' = ''notes.txt''"
  by code_simp

lemma lower_photo: "toLowerCase ''photo.png'' = ''photo.png''"
  by code_simp

lemma lower_essay: "toLowerCase ''essay.docx'' = ''essay.docx''"
  by code_simp

section \<open>The extractor: page loop, trimming, dispatch\<close>

lemma pdfjs_loop_all_pages:
  assumes "page_items pdf = map Some pages"
  shows "1 \<le> i \<Longrightarrow> i \<le> length pages + 1 \<Longrightarrow>
    pdfjs_loop pdf i acc
      = Inr (acc @ concat (map (\<lambda>p. join '' '' p @ newline) (drop (i - 1) pages)))"
proof (induction k \<equiv> "length pages + 1 - i" arbitrary: i acc)
  case 0
  then have "i = length pages + 1" by simp
  then show ?case using assms by (subst pdfjs_loop.simps) (simp add: numPages_def)
next
  case (Suc k)
  then have le: "i \<le> length pages" and pos: "1 \<le> i" by simp_all
  have items: "getPageItems pdf i = Some (pages ! (i - 1))"
    using le pos assms by (simp add: getPageItems_def numPages_def)
  have step: "pdfjs_loop pdf i acc
      = pdfjs_loop pdf (i + 1) (acc @ join '' '' (pages ! (i - 1)) @ newline)"
    using le items assms by (simp add: pdfjs_loop.simps[of pdf i] numPages_def)
  have "k = length pages + 1 - (i + 1)" using Suc.hyps(2) by simp
  then have ih: "pdfjs_loop pdf (i + 1) (acc @ join '' '' (pages ! (i - 1)) @ newline) =
      Inr ((acc @ join '' '' (pages ! (i - 1)) @ newline) @
           concat (map (\<lambda>p. join '' '' p @ newline) (drop i pages)))"
    using Suc.hyps(1)[of "i + 1"] le by simp
  have "drop (i - 1) pages = pages ! (i - 1) # drop i pages"
    using le pos Cons_nth_drop_Suc[of "i - 1" pages] by simp
  then show ?case using step ih by simp
qed

lemma pdfjs_reader_text:
  assumes "pdfjs_getDocument l (content f) = Some pdf" and "page_items pdf = map Some pages"
  shows "extractTextFromPDF_pdfjs l f = Inr (pages_text pages)"
proof -
  have "pdfjs_loop pdf 1 [] = Inr (concat (map (\<lambda>p. join '' '' p @ newline) pages))"
    using pdfjs_loop_all_pages[OF assms(2), of 1 "[]"] by simp
  then show ?thesis
    using assms(1) by (simp add: extractTextFromPDF_pdfjs_def pages_text_def trim_concat_joined)
qed

lemma sample_pages_text:
  "pages_text [[''Hello'', ''world''], [''Second'', ''page'']]
     = ''Hello world'' @ newline @ ''Second page''"
  by (simp add: pages_text_def trim_def newline_def is_space_def)

lemma sample_pdf_text:
  "extractTextFromPDF_pdfjs sample_libs f = Inr (''Hello world'' @ newline @ ''Second page'')"
  using pdfjs_reader_text[of sample_libs f two_page_pdf
      "[[''Hello'', ''world''], [''Second'', ''page'']]"]
  by (simp add: sample_libs_def two_page_pdf_def sample_pages_text)

text \<open>
  Claim C7. In the two pdf.js versions of the extractor, the PDF reader visits the pages
  from 1 to the page count, joins the text items of a page with single spaces, ends every
  page with a newline and trims the whole: when the document opens and every page yields
  its items, the result is the trimmed, newline-separated text of the pages in their order.
\<close>

theorem pdf_pages_in_order:
  assumes "pdfjs_getDocument l (content f) = Some pdf" and "page_items pdf = map Some pages"
  shows "extractTextFromPDF_pdfjs l f = Inr (pages_text pages)
       \<and> extractTextFromPDF_pdfjs_guarded l f = Inr (pages_text pages)"
  using pdfjs_reader_text[OF assms] by (simp add: extractTextFromPDF_pdfjs_guarded_def)

theorem pdf_pages_in_order_witness:
  "extractTextFromPDF_pdfjs sample_libs sample_pdf_file
     = Inr (''Hello world'' @ newline @ ''Second page'')
   \<and> extractTextFromPDF_pdfjs_guarded sample_libs sample_pdf_file
     = Inr (''Hello world'' @ newline @ ''Second page'')"
proof -
  have a: "pdfjs_getDocument sample_libs (content sample_pdf_file) = Some two_page_pdf"
    by (simp add: sample_libs_def)
  have b: "page_items two_page_pdf = map Some [[''Hello'', ''world''], [''Second'', ''page'']]"
    by (simp add: two_page_pdf_def)
  show ?thesis using pdf_pages_in_order[OF a b] sample_pages_text by simp
qed

lemma trim_no_readable_text: "trim no_readable_text = no_readable_text"
  by (simp add: trim_def no_readable_text_def is_space_def)

lemma pdfjs_trimmed: "extractTextFromPDF_pdfjs l f = Inr t \<Longrightarrow> trim t = t"
  by (auto simp: extractTextFromPDF_pdfjs_def trim_idem split: option.splits sum.splits)

lemma pdfjs_guarded_trimmed: "extractTextFromPDF_pdfjs_guarded l f = Inr t \<Longrightarrow> trim t = t"
  by (auto simp: extractTextFromPDF_pdfjs_guarded_def pdfjs_trimmed split: sum.splits)

lemma pdflib_trimmed: "extractTextFromPDF_pdflib l f = Inr t \<Longrightarrow> trim t = t"
  by (auto simp: extractTextFromPDF_pdflib_def Let_def trim_idem trim_no_readable_text
           split: option.splits sum.splits if_splits)

lemma docx_trimmed: "extractTextFromDOCX l f = Inr t \<Longrightarrow> trim t = t"
  by (auto simp: extractTextFromDOCX_def trim_idem split: option.splits)

lemma docx_guarded_trimmed: "extractTextFromDOCX_guarded l f = Inr t \<Longrightarrow> trim t = t"
  by (auto simp: extractTextFromDOCX_guarded_def docx_trimmed split: sum.splits)

lemma txt_trimmed: "extractTextFromTXT l f = Inr t \<Longrightarrow> trim t = t"
  by (auto simp: extractTextFromTXT_def trim_idem split: option.splits)

lemma runReader_trimmed: "runReader v r l f = Inr t \<Longrightarrow> trim t = t"
  by (cases v; cases r)
     (simp_all add: pdfjs_trimmed pdfjs_guarded_trimmed pdflib_trimmed docx_trimmed
        docx_guarded_trimmed txt_trimmed)

text \<open>
  Claim C8. In each of the three versions of the extractor, whenever the extraction of a
  file succeeds the returned text equals its own trim: it has no leading and no trailing
  white space.
\<close>

theorem extracted_text_is_trimmed:
  "extractTextFromFile v l f = Inr t \<Longrightarrow> trim t = t"
  by (auto simp: extractTextFromFile_def catchAll_def runReader_trimmed
           split: option.splits sum.splits)

theorem extracted_text_is_trimmed_witness:
  "extractTextFromFile PdfLib sample_libs sample_txt_file = Inr ''plain text''
   \<and> trim ''plain text'' = ''plain text''"
proof -
  have "selectReader sample_txt_file = Some TXT"
    by (simp add: selectReader_def sample_txt_file_def lower_notes endsWith_def)
  then have a: "extractTextFromFile PdfLib sample_libs sample_txt_file = Inr ''plain text''"
    by (simp add: extractTextFromFile_def catchAll_def sample_libs_def extractTextFromTXT_def
          trim_def is_space_def)
  show ?thesis using extracted_text_is_trimmed[OF a] a by simp
qed

text \<open>
  Claim C9. The priority of the formats wins over the declared MIME type: a file whose lower
  cased name ends in \<open>.pdf\<close> goes to the PDF reader whatever its MIME type is (\<open>text/plain\<close>
  and the DOCX type included), and a file declared \<open>text/plain\<close> whose name ends in \<open>.docx\<close>
  goes to the DOCX reader.
\<close>

theorem suffix_priority_over_mime:
  "(endsWith (toLowerCase (fname f)) ''.pdf'' \<longrightarrow>
      selectReader f = Some PDF \<and> extractTextFromFile v l f = catchAll (runReader v PDF l f))
   \<and> (ftype f = ''text/plain'' \<and> endsWith (toLowerCase (fname f)) ''.docx'' \<longrightarrow>
      selectReader f = Some DOCX \<and> extractTextFromFile v l f = catchAll (runReader v DOCX l f))"
  by (auto simp: selectReader_def extractTextFromFile_def Let_def dest: docx_not_pdf)

theorem suffix_priority_over_mime_witness:
  "selectReader plain_named_pdf = Some PDF
   \<and> extractTextFromFile PdfJs sample_libs plain_named_pdf
       = Inr (''Hello world'' @ newline @ ''Second page'')
   \<and> selectReader plain_named_docx = Some DOCX
   \<and> extractTextFromFile PdfJs sample_libs plain_named_docx = Inl ExtractFailed"
proof -
  have a: "endsWith (toLowerCase (fname plain_named_pdf)) ''.pdf''"
    by (simp add: plain_named_pdf_def lower_report endsWith_def)
  have b: "ftype plain_named_docx = ''text/plain''
      \<and> endsWith (toLowerCase (fname plain_named_docx)) ''.docx''"
    by (simp add: plain_named_docx_def lower_essay endsWith_def)
  have c: "runReader PdfJs PDF sample_libs plain_named_pdf
      = Inr (''Hello world'' @ newline @ ''Second page'')"
    using sample_pdf_text[of plain_named_pdf] by simp
  have d: "runReader PdfJs DOCX sample_libs plain_named_docx = Inl LibraryError"
    by (simp add: extractTextFromDOCX_def sample_libs_def)
  show ?thesis
    using suffix_priority_over_mime[of plain_named_pdf PdfJs sample_libs]
      suffix_priority_over_mime[of plain_named_docx PdfJs sample_libs] a b c d
    by (simp add: catchAll_def)
qed

lemma png_unmatched: "selectReader png_file = None"
  by (simp add: selectReader_def png_file_def endsWith_def lower_photo)

lemma txt_not_pdf: "endsWith s ''.txt'' \<Longrightarrow> \<not> endsWith s ''.pdf''"
proof
  assume a: "endsWith s ''.txt''" and b: "endsWith s ''.pdf''"
  have "last s = CHR ''t''" using endsWith_last[OF a] by simp
  moreover have "last s = CHR ''f''" using endsWith_last[OF b] by simp
  ultimately show False by simp
qed

lemma txt_not_docx: "endsWith s ''.txt'' \<Longrightarrow> \<not> endsWith s ''.docx''"
proof
  assume a: "endsWith s ''.txt''" and b: "endsWith s ''.docx''"
  have "last s = CHR ''t''" using endsWith_last[OF a] by simp
  moreover have "last s = CHR ''x''" using endsWith_last[OF b] by simp
  ultimately show False by simp
qed

lemma failure_is_ExtractFailed: "extractTextFromFile v l f = Inl e \<Longrightarrow> e = ExtractFailed"
  by (auto simp: extractTextFromFile_def catchAll_def split: sum.splits)

text \<open>
  Claim C5, as the code has it. A MIME type or a suffix of one of the three formats selects
  the reader of the format, PDF before DOCX before TXT, and the result is the reader's
  behind the handler of the dispatch. A file that matches none fails, and like every
  failure of the extractor it fails with \<open>ExtractFailed\<close>: the handler around the dispatch
  replaces the \<open>Unsupported file type\<close> error thrown in the last branch.
\<close>

theorem dispatch_by_type_or_suffix:
  "(ftype f = ''application/pdf'' \<or> endsWith (toLowerCase (fname f)) ''.pdf''
      \<longrightarrow> selectReader f = Some PDF)
   \<and> (ftype f = ''application/vnd.openxmlformats-officedocument.wordprocessingml.document''
        \<and> \<not> endsWith (toLowerCase (fname f)) ''.pdf''
      \<longrightarrow> selectReader f = Some DOCX)
   \<and> (endsWith (toLowerCase (fname f)) ''.docx'' \<and> ftype f \<noteq> ''application/pdf''
      \<longrightarrow> selectReader f = Some DOCX)
   \<and> (ftype f = ''text/plain'' \<and> \<not> endsWith (toLowerCase (fname f)) ''.pdf''
        \<and> \<not> endsWith (toLowerCase (fname f)) ''.docx''
      \<longrightarrow> selectReader f = Some TXT)
   \<and> (endsWith (toLowerCase (fname f)) ''.txt'' \<and> ftype f \<noteq> ''application/pdf''
        \<and> ftype f \<noteq> ''application/vnd.openxmlformats-officedocument.wordprocessingml.document''
      \<longrightarrow> selectReader f = Some TXT)
   \<and> (\<forall>r. selectReader f = Some r \<longrightarrow> extractTextFromFile v l f = catchAll (runReader v r l f))
   \<and> (ftype f \<noteq> ''application/pdf'' \<and> \<not> endsWith (toLowerCase (fname f)) ''.pdf''
        \<and> ftype f \<noteq> ''application/vnd.openxmlformats-officedocument.wordprocessingml.document''
        \<and> \<not> endsWith (toLowerCase (fname f)) ''.docx''
        \<and> ftype f \<noteq> ''text/plain'' \<and> \<not> endsWith (toLowerCase (fname f)) ''.txt''
      \<longrightarrow> selectReader f = None \<and> extractTextFromFile v l f = Inl ExtractFailed)
   \<and> (\<forall>e. extractTextFromFile v l f = Inl e \<longrightarrow> e = ExtractFailed)"
proof -
  have a: "\<forall>r. selectReader f = Some r \<longrightarrow> extractTextFromFile v l f = catchAll (runReader v r l f)"
    by (simp add: extractTextFromFile_def)
  have b: "selectReader f = None \<longrightarrow> extractTextFromFile v l f = Inl ExtractFailed"
    by (simp add: extractTextFromFile_def catchAll_def)
  have c: "\<forall>e. extractTextFromFile v l f = Inl e \<longrightarrow> e = ExtractFailed"
    using failure_is_ExtractFailed by blast
  have d: "ftype f \<noteq> ''application/pdf'' \<and> \<not> endsWith (toLowerCase (fname f)) ''.pdf''
        \<and> ftype f \<noteq> ''application/vnd.openxmlformats-officedocument.wordprocessingml.document''
        \<and> \<not> endsWith (toLowerCase (fname f)) ''.docx''
        \<and> ftype f \<noteq> ''text/plain'' \<and> \<not> endsWith (toLowerCase (fname f)) ''.txt''
      \<longrightarrow> selectReader f = None"
    by (simp add: selectReader_def Let_def)
  show ?thesis
    using a b c d docx_not_pdf[of "toLowerCase (fname f)"] txt_not_pdf[of "toLowerCase (fname f)"]
      txt_not_docx[of "toLowerCase (fname f)"]
    by (simp add: selectReader_def Let_def)
qed

theorem dispatch_by_type_or_suffix_witness:
  "selectReader sample_pdf_file = Some PDF
   \<and> selectReader plain_named_docx = Some DOCX
   \<and> selectReader sample_txt_file = Some TXT
   \<and> selectReader png_file = None
   \<and> extractTextFromFile PdfJsGuarded sample_libs png_file = Inl ExtractFailed"
proof -
  have a: "ftype sample_pdf_file = ''application/pdf''" by (simp add: sample_pdf_file_def)
  have b: "endsWith (toLowerCase (fname plain_named_docx)) ''.docx''
      \<and> ftype plain_named_docx \<noteq> ''application/pdf''"
    by (simp add: plain_named_docx_def lower_essay endsWith_def)
  have c: "ftype sample_txt_file = ''text/plain''
      \<and> \<not> endsWith (toLowerCase (fname sample_txt_file)) ''.pdf''
      \<and> \<not> endsWith (toLowerCase (fname sample_txt_file)) ''.docx''"
    by (simp add: sample_txt_file_def lower_notes endsWith_def)
  have d: "ftype png_file \<noteq> ''application/pdf''
      \<and> \<not> endsWith (toLowerCase (fname png_file)) ''.pdf''
      \<and> ftype png_file \<noteq> ''application/vnd.openxmlformats-officedocument.wordprocessingml.document''
      \<and> \<not> endsWith (toLowerCase (fname png_file)) ''.docx''
      \<and> ftype png_file \<noteq> ''text/plain''
      \<and> \<not> endsWith (toLowerCase (fname png_file)) ''.txt''"
    by (simp add: png_file_def lower_photo endsWith_def)
  show ?thesis
    using dispatch_by_type_or_suffix[of sample_pdf_file PdfJsGuarded sample_libs]
      dispatch_by_type_or_suffix[of plain_named_docx PdfJsGuarded sample_libs]
      dispatch_by_type_or_suffix[of sample_txt_file PdfJsGuarded sample_libs]
      dispatch_by_type_or_suffix[of png_file PdfJsGuarded sample_libs]
      a b c d
    by simp
qed

text \<open>
  Claim C5 as stated fails: the error for a file of no supported format is not of the kind
  \<open>UnsupportedType\<close>; it is the error a PDF gets that no library can open.
\<close>

theorem unsupported_type_is_masked:
  "selectReader png_file = None
   \<and> extractTextFromFile PdfLib failing_libs png_file = Inl ExtractFailed
   \<and> extraction_kind ExtractFailed \<noteq> UnsupportedType
   \<and> selectReader sample_pdf_file = Some PDF
   \<and> extractTextFromFile PdfLib failing_libs sample_pdf_file
       = extractTextFromFile PdfLib failing_libs png_file"
proof -
  have a: "selectReader sample_pdf_file = Some PDF"
    by (simp add: selectReader_def sample_pdf_file_def)
  have "runReader PdfLib PDF failing_libs sample_pdf_file = Inl PdfFailed"
    by (simp add: extractTextFromPDF_pdflib_def failing_libs_def)
  then show ?thesis using a
    by (simp add: extractTextFromFile_def catchAll_def png_unmatched)
qed

section \<open>The pdf-lib reader\<close>

lemma trim_undefined: "trim ''undefined '' = ''undefined''"
  by (simp add: trim_def is_space_def)

text \<open>
  Claim C10, at a PDF that loads and whose only text field holds no text. \<open>getText()\<close>
  returns \<open>undefined\<close>, the concatenation with \<open>' '\<close> makes it the text \<open>undefined \<close>, the
  test for missing field text fails, and the reader returns \<open>undefined\<close>: neither the
  placeholder with the page count nor the fallback sentence.
\<close>

theorem blank_form_field_yields_undefined:
  "extractTextFromPDF_pdflib form_libs sample_pdf_file = Inr ''undefined''
   \<and> extractTextFromFile PdfLib form_libs sample_pdf_file = Inr ''undefined''"
proof -
  have a: "extractTextFromPDF_pdflib form_libs sample_pdf_file = Inr ''undefined''"
    by (simp add: extractTextFromPDF_pdflib_def form_libs_def blank_form_def trim_undefined)
  have "selectReader sample_pdf_file = Some PDF"
    by (simp add: selectReader_def sample_pdf_file_def)
  then show ?thesis using a by (simp add: extractTextFromFile_def catchAll_def)
qed

text \<open>
  What the reader does when the text gathered from the fields is blank: the placeholder,
  which starts with \<open>PDF document with\<close> and is never blank.
\<close>

lemma page_info_loop_extends: "\<exists>r. page_info_loop doc i acc = acc @ r"
proof (induction doc i acc rule: page_info_loop.induct)
  case (1 doc i extractedText)
  show ?case
  proof (cases "i < min (getPageCount doc) 5")
    case True
    obtain w h where wh: "page_sizes doc ! i = (w, h)" by (cases "page_sizes doc ! i")
    from 1[OF True wh[symmetric]] obtain r where
      "page_info_loop doc (i + 1)
         (extractedText @ ''Page '' @ show_nat (i + 1) @ '' content ('' @ w @ ''x'' @ h @ ''). '')
       = (extractedText @ ''Page '' @ show_nat (i + 1) @ '' content ('' @ w @ ''x'' @ h @ ''). '')
           @ r"
      by blast
    moreover have "page_info_loop doc i extractedText =
        page_info_loop doc (i + 1)
          (extractedText @ ''Page '' @ show_nat (i + 1) @ '' content ('' @ w @ ''x'' @ h @ ''). '')"
      by (subst page_info_loop.simps) (simp only: True if_True wh prod.case)
    ultimately show ?thesis by simp
  next
    case False
    have "page_info_loop doc i extractedText = extractedText"
      by (subst page_info_loop.simps) (simp only: False if_False)
    then show ?thesis by simp
  qed
qed

lemma basic_info_not_blank: "trim (basic_info doc) \<noteq> []"
proof -
  obtain r where
    "basic_info doc = (''PDF document with '' @ show_nat (getPageCount doc) @ '' pages. '') @ r"
    unfolding basic_info_def using page_info_loop_extends by blast
  then have "CHR ''P'' \<in> set (basic_info doc)" by simp
  moreover have "\<not> is_space (CHR ''P'')" by (simp add: is_space_def)
  ultimately show ?thesis by (auto simp: trim_empty_iff)
qed

lemma pdflib_without_field_text:
  assumes "pdflib_load l (content f) = Some doc"
    and "collectFieldText (form_fields doc) [] = Inr fieldText" and "trim fieldText = []"
  shows "extractTextFromPDF_pdflib l f = Inr (trim (basic_info doc))"
  using assms by (simp add: extractTextFromPDF_pdflib_def basic_info_not_blank)

lemma trim_Nil: "trim [] = []"
  by (simp add: trim_def)

lemma show_nat_2: "show_nat 2 = ''2''"
  by code_simp

lemma show_nat_Suc_0: "show_nat (Suc 0) = ''1''"
  by code_simp

lemma show_nat_Suc_Suc_0: "show_nat (Suc (Suc 0)) = ''2''"
  using show_nat_2 by (simp add: numeral_2_eq_2)

lemma two_page_info:
  "basic_info two_page_plain
     = ''PDF document with 2 pages. Page 1 content (612x792). Page 2 content (612x792). ''"
  by (simp add: basic_info_def page_info_loop.simps getPageCount_def two_page_plain_def
        show_nat_2 show_nat_Suc_0 show_nat_Suc_Suc_0)

lemma trim_two_page_info:
  "trim ''PDF document with 2 pages. Page 1 content (612x792). Page 2 content (612x792). ''
     = ''PDF document with 2 pages. Page 1 content (612x792). Page 2 content (612x792).''"
  by (simp add: trim_def is_space_def)

text \<open>
  Claim C7 as stated fails for the pdf-lib version of the extractor: on a file whose two
  pages carry text it returns the page count and the page sizes, not the text of the
  pages.
\<close>

theorem pdflib_reads_no_page_text:
  "pdfjs_getDocument both_libs (content sample_pdf_file) = Some two_page_pdf
   \<and> page_items two_page_pdf = map Some [[''Hello'', ''world''], [''Second'', ''page'']]
   \<and> extractTextFromPDF_pdflib both_libs sample_pdf_file
       = Inr ''PDF document with 2 pages. Page 1 content (612x792). Page 2 content (612x792).''
   \<and> extractTextFromPDF_pdflib both_libs sample_pdf_file
       \<noteq> Inr (pages_text [[''Hello'', ''world''], [''Second'', ''page'']])"
proof -
  have a: "collectFieldText (form_fields two_page_plain) [] = Inr []"
    by (simp add: two_page_plain_def)
  have b: "pdflib_load both_libs (content sample_pdf_file) = Some two_page_plain"
    by (simp add: both_libs_def)
  have c: "extractTextFromPDF_pdflib both_libs sample_pdf_file
       = Inr ''PDF document with 2 pages. Page 1 content (612x792). Page 2 content (612x792).''"
    using pdflib_without_field_text[OF b a] by (simp add: trim_Nil two_page_info trim_two_page_info)
  show ?thesis
    using c by (simp add: both_libs_def two_page_pdf_def sample_pages_text newline_def)
qed

section \<open>Evaluating the sample run\<close>

lemma sample_txt_extract:
  "extractTextFromFile PdfLib sample_libs sample_txt_file = Inr ''plain text''"
proof -
  have "selectReader sample_txt_file = Some TXT"
    by (simp add: selectReader_def sample_txt_file_def lower_notes endsWith_def)
  then show ?thesis
    by (simp add: extractTextFromFile_def catchAll_def sample_libs_def extractTextFromTXT_def
          trim_def is_space_def)
qed

lemma trim_key: "trim ''key'' = ''key''"
  by (simp add: trim_def is_space_def)

lemma trim_plain_text: "trim ''plain text'' = ''plain text''"
  by (simp add: trim_def is_space_def)

lemma sample_ready: "isReadyToGenerate (Some sample_txt_file) ''key'' sample_settings"
  by (simp add: isReadyToGenerate_def trim_key sample_settings_def)

lemma generateQuiz_request:
  assumes "isReadyToGenerate (Some f) apiKey settings" and "extractor f = Inr t"
    and "trim t \<noteq> []" and "fetch pf (buildRequest apiKey settings t) = Some r"
  shows "generateQuiz pf extractor (Some f) apiKey settings
           = (Some (handleResponse (JSON_parse_of pf) r), [buildRequest apiKey settings t])"
  using assms by (simp add: generateQuiz_def)

lemma text_of_envelope: "generatedTextOf (reply_envelope reply) = Inr (Some (JStr reply))"
  by (simp add: generatedTextOf_def reply_envelope_def)

lemma generateQuiz_replying:
  "generateQuiz (replying reply) (extractTextFromFile PdfLib sample_libs) (Some sample_txt_file)
     ''key'' sample_settings
   = (Some (parseQuestions JSON_parse (Some (JStr reply))),
      [buildRequest ''key'' sample_settings ''plain text''])"
proof -
  have "fetch (replying reply) (buildRequest ''key'' sample_settings ''plain text'')
      = Some \<lparr>status = 200, statusText = ''OK'', json_result = Some (reply_envelope reply)\<rparr>"
    by (simp add: replying_def)
  then show ?thesis
    using generateQuiz_request[where f = sample_txt_file
        and extractor = "extractTextFromFile PdfLib sample_libs" and t = "''plain text''"
        and pf = "replying reply" and apiKey = "''key''" and settings = sample_settings]
      sample_ready sample_txt_extract
    by (simp add: trim_plain_text handleResponse_def ok_def text_of_envelope replying_def)
qed

section \<open>Locating and parsing the array\<close>

lemma matchArray_embedded:
  assumes "CHR ''['' \<notin> set pre" and "CHR '']'' \<notin> set post"
  shows "matchArray (pre @ (CHR ''['' # inner @ [CHR '']'']) @ post)
           = Some (CHR ''['' # inner @ [CHR '']''])"
proof -
  have a: "dropWhile (\<lambda>c. c \<noteq> CHR ''['') (pre @ (CHR ''['' # inner @ [CHR '']'']) @ post)
      = CHR ''['' # inner @ [CHR '']''] @ post"
    using assms(1) by (subst dropWhile_append2) auto
  have b: "dropWhile (\<lambda>c. c \<noteq> CHR '']'') (rev (inner @ [CHR '']''] @ post))
      = CHR '']'' # rev inner"
    using assms(2) by (simp only: rev_append rev.simps append_Nil append_assoc, subst dropWhile_append2) auto
  show ?thesis unfolding matchArray_def a using b by (simp split: list.splits)
qed

lemma matchArray_bracketed:
  assumes "s = CHR ''['' # inner @ [CHR '']'']"
    and "CHR ''['' \<notin> set pre" and "CHR '']'' \<notin> set post"
  shows "matchArray (pre @ s @ post) = Some s"
  unfolding assms(1) using assms(2,3) by (rule matchArray_embedded)

lemma matchArray_whole:
  assumes "s = CHR ''['' # inner @ [CHR '']'']"
  shows "matchArray s = Some s"
  using matchArray_bracketed[OF assms, of "[]" "[]"] by simp

lemma parse_q1: "JSON_parse q1_text = Some (JArr [q1])"
  unfolding q1_text_def q1_def by code_simp

lemma q1_text_brackets: "q1_text = CHR ''['' # butlast (tl q1_text) @ [CHR '']'']"
  by (simp add: q1_text_def)

lemma q1_valid: "validQuestion q1 = Inr True"
  by (simp add: validQuestion_def q1_def)

lemma parse_embedded_q1:
  assumes "parse q1_text = Some (JArr [q1])"
    and "CHR ''['' \<notin> set pre" and "CHR '']'' \<notin> set post"
  shows "matchArray (pre @ q1_text @ post) = Some q1_text
       \<and> parseQuestions parse (Some (JStr (pre @ q1_text @ post))) = Inr [q1]"
proof -
  have m: "matchArray (pre @ q1_text @ post) = Some q1_text"
    using q1_text_brackets assms(2,3) by (rule matchArray_bracketed)
  have "q1_text \<noteq> []" by (simp add: q1_text_def)
  then have "pre @ q1_text @ post \<noteq> []" by simp
  then show ?thesis using m assms(1)
    by (simp add: parseQuestions_def q1_valid)
qed








section \<open>Early exits\<close>

text \<open>
  Claim C4. When the extracted text is empty or white space only, the quiz requester fails
  with \<open>No text could be extracted from the file\<close> and no request has been handed to
  \<open>fetch\<close>.
\<close>

theorem blank_text_stops_before_fetch:
  assumes "isReadyToGenerate (Some f) apiKey settings" and "extractor f = Inr t"
    and "\<forall>c\<in>set t. is_space c"
  shows "generateQuiz pf extractor (Some f) apiKey settings = (Some (Inl NoTextExtracted), [])"
  using assms by (simp add: generateQuiz_def trim_empty_iff)

theorem blank_text_stops_before_fetch_witness:
  "generateQuiz (replying q1_text) (\<lambda>f. Inr ''   '') (Some sample_txt_file) ''key''
      sample_settings = (Some (Inl NoTextExtracted), [])
   \<and> generateQuiz (replying q1_text) (\<lambda>f. Inr []) (Some sample_txt_file) ''key''
      sample_settings = (Some (Inl NoTextExtracted), [])"
proof -
  have a: "\<forall>c\<in>set ''   ''. is_space c" by (simp add: is_space_def)
  have b: "\<forall>c\<in>set []. is_space c" by simp
  show ?thesis
    using blank_text_stops_before_fetch[where f = sample_txt_file and extractor = "\<lambda>f. Inr ''   ''"
        and t = "''   ''" and pf = "replying q1_text" and apiKey = "''key''" and settings = sample_settings]
      blank_text_stops_before_fetch[where f = sample_txt_file and extractor = "\<lambda>f. Inr []"
        and t = "[]" and pf = "replying q1_text" and apiKey = "''key''" and settings = sample_settings]
      sample_ready a b
    by simp
qed

text \<open>
  Claim C6. When the status of the response is outside 200 to 299, the quiz requester fails
  with the \<open>API Error\<close> that carries the status and the status text; the body is not looked
  at: whatever \<open>response.json()\<close> would give and whatever the parser is, the result is the
  same.
\<close>

theorem failed_status_is_reported:
  assumes "isReadyToGenerate (Some f) apiKey settings" and "extractor f = Inr t"
    and "trim t \<noteq> []" and "fetch pf (buildRequest apiKey settings t) = Some r"
    and "status r < 200 \<or> 299 < status r"
  shows "generateQuiz pf extractor (Some f) apiKey settings
           = (Some (Inl (ApiError (status r) (statusText r))), [buildRequest apiKey settings t])
       \<and> (\<forall>parse j. handleResponse parse (r\<lparr>json_result := j\<rparr>)
             = Inl (ApiError (status r) (statusText r)))"
  using generateQuiz_request[where f = f and extractor = extractor and t = t and pf = pf and r = r
      and apiKey = apiKey and settings = settings] assms
  by (auto simp: handleResponse_def ok_def)

theorem failed_status_is_reported_witness:
  "generateQuiz refusing (extractTextFromFile PdfLib sample_libs) (Some sample_txt_file) ''key''
      sample_settings
   = (Some (Inl (ApiError 429 ''Too Many Requests'')),
      [buildRequest ''key'' sample_settings ''plain text''])"
proof -
  have f: "fetch refusing (buildRequest ''key'' sample_settings ''plain text'')
      = Some \<lparr>status = 429, statusText = ''Too Many Requests'',
               json_result = Some (reply_envelope q1_text)\<rparr>"
    by (simp add: refusing_def)
  have t: "trim ''plain text'' \<noteq> []" by (simp add: trim_plain_text)
  show ?thesis
    using failed_status_is_reported[where f = sample_txt_file and apiKey = "''key''"
        and settings = sample_settings and extractor = "extractTextFromFile PdfLib sample_libs"
        and t = "''plain text''" and pf = refusing
        and r = "\<lparr>status = 429, statusText = ''Too Many Requests'',
               json_result = Some (reply_envelope q1_text)\<rparr>"]
      sample_ready sample_txt_extract t f
    by simp
qed

section \<open>Validation\<close>

lemma every_True_iff: "every p xs = Inr True \<longleftrightarrow> (\<forall>x\<in>set xs. p x = Inr True)"
  by (induction xs) (auto split: sum.splits)

lemma parseQuestions_Inr:
  assumes "parseQuestions parse g = Inr qs"
  shows "\<exists>s m. g = Some (JStr s) \<and> matchArray s = Some m \<and> parse m = Some (JArr qs)
           \<and> qs \<noteq> [] \<and> (\<forall>q\<in>set qs. validQuestion q = Inr True)"
  using assms
  by (auto simp: parseQuestions_def every_True_iff[symmetric]
           split: if_splits option.splits json.splits sum.splits)

lemma validQuestion_True:
  assumes "validQuestion q = Inr True"
  shows "truthy (named q ''question'')
       \<and> (\<exists>opts. named q ''options'' = Some (JArr opts) \<and> length opts = 4)
       \<and> (\<exists>n. named q ''correctAnswerIndex'' = Some (JNum n))
       \<and> truthy (named q ''hint'')"
  using assms
  by (auto simp: validQuestion_def split: json.splits option.splits)

lemma generateQuiz_Inr:
  assumes "generateQuiz pf extractor sf key st = (Some (Inr qs), reqs)"
  shows "\<exists>g. parseQuestions (JSON_parse_of pf) g = Inr qs"
  using assms
  by (auto simp: generateQuiz_def handleResponse_def Let_def
           split: if_splits option.splits sum.splits)

text \<open>
  Claim C1, as the code has it. Every question of a returned sequence passed the check of
  the code: a truthy \<open>question\<close>, \<open>options\<close> an array of exactly four elements (of any
  kind), \<open>correctAnswerIndex\<close> a number (of any value), a truthy \<open>hint\<close>.
\<close>

theorem returned_questions_passed_the_check:
  assumes "generateQuiz pf extractor sf key st = (Some (Inr qs), reqs)" and "q \<in> set qs"
  shows "truthy (named q ''question'')
       \<and> (\<exists>opts. named q ''options'' = Some (JArr opts) \<and> length opts = 4)
       \<and> (\<exists>n. named q ''correctAnswerIndex'' = Some (JNum n))
       \<and> truthy (named q ''hint'')"
proof -
  obtain g where "parseQuestions (JSON_parse_of pf) g = Inr qs"
    using generateQuiz_Inr[OF assms(1)] by blast
  then have "validQuestion q = Inr True"
    using parseQuestions_Inr assms(2) by blast
  then show ?thesis by (rule validQuestion_True)
qed

theorem returned_questions_passed_the_check_witness:
  "truthy (named q1 ''question'')
   \<and> (\<exists>opts. named q1 ''options'' = Some (JArr opts) \<and> length opts = 4)
   \<and> (\<exists>n. named q1 ''correctAnswerIndex'' = Some (JNum n))
   \<and> truthy (named q1 ''hint'')"
proof -
  have "parseQuestions JSON_parse (Some (JStr q1_text)) = Inr [q1]"
    using parse_embedded_q1[where parse = JSON_parse and pre = "[]" and post = "[]"] parse_q1
    by simp
  then have "generateQuiz (replying q1_text) (extractTextFromFile PdfLib sample_libs)
      (Some sample_txt_file) ''key'' sample_settings
     = (Some (Inr [q1]), [buildRequest ''key'' sample_settings ''plain text''])"
    by (simp add: generateQuiz_replying)
  then show ?thesis
    by (rule returned_questions_passed_the_check) simp
qed

lemma parse_loose: "JSON_parse loose_text = Some (JArr [loose_options, loose_index])"
  unfolding loose_text_def loose_options_def loose_index_def by code_simp

lemma loose_text_brackets: "loose_text = CHR ''['' # butlast (tl loose_text) @ [CHR '']'']"
  by (simp add: loose_text_def)

lemma match_loose: "matchArray loose_text = Some loose_text"
  using loose_text_brackets by (rule matchArray_whole)

lemma loose_accepted:
  "parseQuestions JSON_parse (Some (JStr loose_text)) = Inr [loose_options, loose_index]"
proof -
  have "loose_text \<noteq> []" by (simp add: loose_text_def)
  moreover have "validQuestion loose_options = Inr True"
    by (simp add: validQuestion_def loose_options_def)
  moreover have "validQuestion loose_index = Inr True"
    by (simp add: validQuestion_def loose_index_def)
  ultimately show ?thesis
    by (simp add: parseQuestions_def match_loose parse_loose)
qed

text \<open>
  Claim C1 as stated fails: a reply whose first question has four numbers as options and
  whose second question has the index 7 is returned as it is.
\<close>

theorem unchecked_shape_is_returned:
  "generateQuiz (replying loose_text) (extractTextFromFile PdfLib sample_libs)
      (Some sample_txt_file) ''key'' sample_settings
     = (Some (Inr [loose_options, loose_index]), [buildRequest ''key'' sample_settings ''plain text''])
   \<and> \<not> four_string_options loose_options
   \<and> \<not> index_in_range loose_index"
  by (simp add: generateQuiz_replying loose_accepted four_string_options_def index_in_range_def
        loose_options_def loose_index_def)

lemma parse_null: "JSON_parse ''[null]'' = Some (JArr [JNull])"
  by code_simp

lemma parse_with_null: "JSON_parse with_null_text = Some (JArr [q1, JNull])"
  unfolding with_null_text_def q1_def by code_simp

lemma match_null: "matchArray ''[null]'' = Some ''[null]''"
  by (rule matchArray_whole[of _ "''null''"]) simp

lemma with_null_text_brackets: "with_null_text = CHR ''['' # butlast (tl with_null_text) @ [CHR '']'']"
  by (simp add: with_null_text_def)

lemma match_with_null: "matchArray with_null_text = Some with_null_text"
  using with_null_text_brackets by (rule matchArray_whole)

lemma null_invalid: "validQuestion JNull = Inl TypeError"
  by (simp add: validQuestion_def)

text \<open>
  Claim C2, at a reply with a \<open>null\<close> element. The callback reads \<open>q.question\<close> on
  \<open>null\<close>: the batch is rejected, but with a \<open>TypeError\<close> and not with
  \<open>Generated questions have invalid format\<close>, also when the other element is valid.
\<close>

theorem null_element_raises_TypeError:
  "generateQuiz (replying ''[null]'') (extractTextFromFile PdfLib sample_libs)
      (Some sample_txt_file) ''key'' sample_settings
     = (Some (Inl TypeError), [buildRequest ''key'' sample_settings ''plain text''])
   \<and> generateQuiz (replying with_null_text) (extractTextFromFile PdfLib sample_libs)
      (Some sample_txt_file) ''key'' sample_settings
     = (Some (Inl TypeError), [buildRequest ''key'' sample_settings ''plain text''])"
proof -
  have "with_null_text \<noteq> []" by (simp add: with_null_text_def)
  then have "parseQuestions JSON_parse (Some (JStr with_null_text)) = Inl TypeError"
    by (simp add: parseQuestions_def match_with_null parse_with_null q1_valid null_invalid)
  moreover have "parseQuestions JSON_parse (Some (JStr ''[null]'')) = Inl TypeError"
    by (simp add: parseQuestions_def match_null parse_null null_invalid)
  ultimately show ?thesis by (simp add: generateQuiz_replying)
qed

text \<open>
  The rest of C2 holds. A returned sequence is the whole parsed array, and every element
  of it passed the check (\<open>parseQuestions_Inr\<close>); an element that does not pass rejects the
  batch; with no \<open>null\<close> among the elements the error is the one of the validation, as
  for the reply with three options.
\<close>

lemma every_not_True:
  assumes "x \<in> set xs" and "p x \<noteq> Inr True"
  shows "every p xs \<noteq> Inr True"
  using assms every_True_iff[of p xs] by blast

lemma every_False:
  assumes "\<forall>x\<in>set xs. \<exists>b. p x = Inr b" and "x \<in> set xs" and "p x = Inr False"
  shows "every p xs = Inr False"
  using assms
proof (induction xs)
  case Nil
  then show ?case by simp
next
  case (Cons a xs)
  obtain b where b: "p a = Inr b" using Cons.prems(1) by auto
  show ?case
  proof (cases b)
    case True
    then have "x \<in> set xs" using Cons.prems(2,3) b by auto
    then have "every p xs = Inr False" using Cons.IH Cons.prems(1,3) by simp
    then show ?thesis using b True by simp
  next
    case False
    then show ?thesis using b by simp
  qed
qed

lemma validQuestion_nonnull:
  "q \<noteq> JNull \<Longrightarrow>
   validQuestion q =
     Inr (truthy (named q ''question'')
          \<and> (case named q ''options'' of Some (JArr opts) \<Rightarrow> length opts = 4 | _ \<Rightarrow> False)
          \<and> (case named q ''correctAnswerIndex'' of Some (JNum n) \<Rightarrow> True | _ \<Rightarrow> False)
          \<and> truthy (named q ''hint''))"
  by (cases q) (simp_all add: validQuestion_def)

lemma validQuestion_total: "q \<noteq> JNull \<Longrightarrow> \<exists>b. validQuestion q = Inr b"
  using validQuestion_nonnull by blast

lemma batch_rejected_as_a_whole:
  assumes "matchArray s = Some m" and "parse m = Some (JArr qs)"
    and "q \<in> set qs" and "validQuestion q \<noteq> Inr True"
  shows "\<exists>e. parseQuestions parse (Some (JStr s)) = Inl e"
proof (cases "parseQuestions parse (Some (JStr s))")
  case (Inl e)
  then show ?thesis by blast
next
  case (Inr qs')
  from parseQuestions_Inr[OF Inr] obtain s' m' where
    "Some (JStr s) = Some (JStr s')" and "matchArray s' = Some m'"
    and "parse m' = Some (JArr qs')" and "\<forall>q\<in>set qs'. validQuestion q = Inr True"
    by blast
  then have "qs' = qs" using assms(1,2) by simp
  then show ?thesis using assms(3,4) \<open>\<forall>q\<in>set qs'. validQuestion q = Inr True\<close> by blast
qed

lemma batch_without_null_rejected:
  assumes "matchArray s = Some m" and "parse m = Some (JArr qs)" and "JNull \<notin> set qs"
    and "q \<in> set qs" and "validQuestion q = Inr False" and "s \<noteq> []"
  shows "parseQuestions parse (Some (JStr s)) = Inl InvalidQuestionFormat"
proof -
  have "\<forall>x\<in>set qs. \<exists>b. validQuestion x = Inr b"
    using assms(3) validQuestion_total by metis
  then have "every validQuestion qs = Inr False"
    using assms(4,5) by (rule every_False)
  moreover have "qs \<noteq> []" using assms(4) by auto
  ultimately show ?thesis using assms(1,2,6) by (simp add: parseQuestions_def)
qed

lemma parse_short_options: "JSON_parse short_options_text = Some (JArr [q1, q2_short])"
  unfolding short_options_text_def q1_def q2_short_def by code_simp

lemma q2_short_invalid: "validQuestion q2_short = Inr False"
  by (simp add: validQuestion_def q2_short_def)

lemma short_options_text_brackets:
  "short_options_text = CHR ''['' # butlast (tl short_options_text) @ [CHR '']'']"
  by (simp add: short_options_text_def)

lemma three_options_reject_the_batch:
  "parseQuestions JSON_parse (Some (JStr short_options_text)) = Inl InvalidQuestionFormat"
proof -
  have "short_options_text \<noteq> []" by (simp add: short_options_text_def)
  moreover have "matchArray short_options_text = Some short_options_text"
    using short_options_text_brackets by (rule matchArray_whole)
  ultimately show ?thesis
    by (simp add: parseQuestions_def parse_short_options q1_valid q2_short_invalid)
qed

end
